theory Spec2Isabelle
  imports Main "HOL-Library.Sublist" "HOL-Library.AList"
begin

section \<open>The event service of \<^verbatim>\<open>prodinf-srv/event_app.py\<close>\<close>

text \<open>
  The module is a Flask application: module-level tables (\<^verbatim>\<open>event_lookup\<close>,
  \<^verbatim>\<open>process_lookup\<close>), a module-level cache of backend connections (\<^verbatim>\<open>hives\<close>), route
  handlers, and three error handlers. The embedding passes the mutable part (the cache, and
  the sequence of calls made to the outside: local log, message bus, job backend, task
  queue) as an explicit state, and returns every raised exception as a value.
\<close>

subsection \<open>JSON documents and Python string formatting\<close>

text \<open>
  A parsed JSON document. An object is an association list in insertion order; a lookup
  takes the first binding of a key. Non-integer numbers are not represented.
\<close>

datatype json =
    JNull
  | JBool bool
  | JInt int
  | JStr string
  | JArr "json list"
  | JObj "(string \<times> json) list"

text \<open>\<^verbatim>\<open>str.lower()\<close> on ASCII text.\<close>

definition lower_char :: "char \<Rightarrow> char" where
  "lower_char c =
     (case map_of (zip ''ABCDEFGHIJKLMNOPQRSTUVWXYZ'' ''abcdefghijklmnopqrstuvwxyz'') c of
        Some l \<Rightarrow> l
      | None \<Rightarrow> c)"

definition lower :: "string \<Rightarrow> string" where
  "lower s = map lower_char s"

text \<open>\<^verbatim>\<open>'%s' % n\<close> for an integer: its decimal numeral.\<close>

definition digit_char :: "nat \<Rightarrow> char" where
  "digit_char d = ''0123456789'' ! d"

fun str_nat :: "nat \<Rightarrow> string" where
  "str_nat n = (if n < 10 then [digit_char n] else str_nat (n div 10) @ [digit_char (n mod 10)])"

declare str_nat.simps [simp del]

definition str_int :: "int \<Rightarrow> string" where
  "str_int i = (if i < 0 then CHR ''-'' # str_nat (nat (- i)) else str_nat (nat i))"

subsection \<open>Exceptions, reports, the outside world\<close>

text \<open>
  The exception classes that occur: the three the module handles, and the Python built-ins
  raised by a failed subscript, attribute lookup or call into a library.
  \<open>HTTPRequestError\<close> carries its message and its status code.
\<close>

datatype exn =
    HTTPRequestError string nat
  | EventNotFoundError string
  | ProcessNotFoundError string
  | ValueError string
  | KeyError string
  | TypeError string
  | AttributeError string
  | OtherError string

text \<open>
  Modelled from the spec: the default status code of \<^verbatim>\<open>HTTPRequestError\<close>, whose class
  (\<^verbatim>\<open>ensembl_prodinf.exceptions\<close>) is not part of the module: a locally detected input error
  is answered with HTTP 400.
\<close>

definition default_status_code :: nat where
  "default_status_code = 400"

record report =
  report_type :: string
  msg :: string

text \<open>
  Modelled from the spec: \<^verbatim>\<open>make_report\<close> (\<^verbatim>\<open>ensembl_prodinf.reporting\<close>) builds the record
  \<^verbatim>\<open>{report_type: level, msg: message}\<close>.
\<close>

definition make_report :: "string \<Rightarrow> string \<Rightarrow> report" where
  "make_report level message = \<lparr>report_type = level, msg = message\<rparr>"

text \<open>
  \<^verbatim>\<open>getattr(logging, level)\<close>: the level constants of Python's \<^verbatim>\<open>logging\<close> module. Any other
  name is treated as a failed attribute lookup.
\<close>

definition logging_level :: "string \<Rightarrow> nat option" where
  "logging_level name =
     map_of [(''CRITICAL'', 50), (''FATAL'', 50), (''ERROR'', 40), (''WARNING'', 30),
             (''WARN'', 30), (''INFO'', 20), (''DEBUG'', 10), (''NOTSET'', 0)] name"

text \<open>A connection object: \<^verbatim>\<open>HiveInstance(uri)\<close>. A job handle as the backend returns it.\<close>

datatype HiveInstance = HiveInstance (hive_url: string)

datatype hive_job = Job (job_id: int)

text \<open>
  Every call that leaves the module, in the order made: a line in the local log (severity,
  message), a publish on the message bus, the construction of a connection, the five
  operations of a connection (each with the address of its connection), and the dispatch
  of the follow-up task.
\<close>

datatype effect =
    Log nat string
  | Publish report string
  | Connect string
  | CreateJob string string json
  | GetJobById string int
  | GetResultForJobId string int
  | DeleteJob string hive_job
  | GetAllResults string string
  | Delay json string int

text \<open>
  The libraries behind those calls are not part of the module; their answers are parameters.
  Each answer may depend on everything done so far (the calls before it) and on the
  arguments; \<open>Inl e\<close> or \<open>Some e\<close> is the exception the call raises.
\<close>

record world =
  bus_publish :: "effect list \<Rightarrow> report \<Rightarrow> string \<Rightarrow> exn option"
  task_delay :: "effect list \<Rightarrow> json \<Rightarrow> string \<Rightarrow> int \<Rightarrow> exn + string"
  hive_create_job :: "effect list \<Rightarrow> string \<Rightarrow> string \<Rightarrow> json \<Rightarrow> exn + int"
  hive_get_job_by_id :: "effect list \<Rightarrow> string \<Rightarrow> int \<Rightarrow> exn + hive_job"
  hive_get_result_for_job_id :: "effect list \<Rightarrow> string \<Rightarrow> int \<Rightarrow> exn + json"
  hive_delete_job :: "effect list \<Rightarrow> string \<Rightarrow> hive_job \<Rightarrow> exn option"
  hive_get_all_results :: "effect list \<Rightarrow> string \<Rightarrow> string \<Rightarrow> exn + json"

text \<open>
  The two tables loaded at start-up: event type to process names, process name to its
  descriptor \<^verbatim>\<open>{hive_uri, analysis}\<close>.
\<close>

record descriptor =
  hive_uri :: string
  analysis :: string

type_synonym event_table = "string \<rightharpoonup> string list"
type_synonym process_table = "string \<rightharpoonup> descriptor"

text \<open>The mutable state: the dictionary \<^verbatim>\<open>hives\<close> and the calls made so far.\<close>

record state =
  hives :: "(string \<times> HiveInstance) list"
  trace :: "effect list"

definition emit :: "effect \<Rightarrow> state \<Rightarrow> state" where
  "emit e s = s\<lparr>trace := trace s @ [e]\<rparr>"

subsection \<open>The functions of the module\<close>

definition log_and_publish :: "world \<Rightarrow> report \<Rightarrow> state \<Rightarrow> (exn + unit) \<times> state" where
  "log_and_publish W rep s =
     (let level = report_type rep;
          routing_key = ''report.'' @ lower level
      in case logging_level level of
           None \<Rightarrow> (Inl (AttributeError level), s)
         | Some severity \<Rightarrow>
             (let s1 = emit (Log severity (msg rep)) s;
                  s2 = emit (Publish rep routing_key) s1
              in case bus_publish W (trace s1) rep routing_key of
                   Some e \<Rightarrow> (Inl e, s2)
                 | None \<Rightarrow> (Inr (), s2)))"

text \<open>
  \<^verbatim>\<open>event['type']\<close> needs a dictionary with that key; \<^verbatim>\<open>event_type not in event_lookup\<close> needs
  a hashable value; the keys of the table are strings, so no other scalar is among them.
\<close>

definition get_processes_for_event :: "event_table \<Rightarrow> json \<Rightarrow> exn + string list" where
  "get_processes_for_event event_lookup event =
     (case event of
        JObj kvs \<Rightarrow>
          (case map_of kvs ''type'' of
             None \<Rightarrow> Inl (KeyError ''type'')
           | Some event_type \<Rightarrow>
               (case event_type of
                  JStr t \<Rightarrow>
                    (case event_lookup t of
                       None \<Rightarrow> Inl (EventNotFoundError (''Event type '' @ t @ '' not known''))
                     | Some ps \<Rightarrow> Inr ps)
                | JInt n \<Rightarrow> Inl (EventNotFoundError (''Event type '' @ str_int n @ '' not known''))
                | JBool b \<Rightarrow>
                    Inl (EventNotFoundError
                          (''Event type '' @ (if b then ''True'' else ''False'') @ '' not known''))
                | JNull \<Rightarrow> Inl (EventNotFoundError ''Event type None not known'')
                | JArr _ \<Rightarrow> Inl (TypeError ''unhashable type'')
                | JObj _ \<Rightarrow> Inl (TypeError ''unhashable type'')))
      | _ \<Rightarrow> Inl (TypeError ''event is not a dictionary''))"

definition get_analysis :: "process_table \<Rightarrow> string \<Rightarrow> exn + string" where
  "get_analysis process_lookup process =
     (case process_lookup process of
        None \<Rightarrow> Inl (ProcessNotFoundError (''Process '' @ process @ '' not known''))
      | Some d \<Rightarrow> Inr (analysis d))"

definition get_hive :: "process_table \<Rightarrow> string \<Rightarrow> state \<Rightarrow> (exn + HiveInstance) \<times> state" where
  "get_hive process_lookup process s =
     (case map_of (hives s) process of
        Some h \<Rightarrow> (Inr h, s)
      | None \<Rightarrow>
          (case process_lookup process of
             None \<Rightarrow> (Inl (ProcessNotFoundError (''Process '' @ process @ '' not known'')), s)
           | Some d \<Rightarrow>
               (let h = HiveInstance (hive_uri d)
                in (Inr h, s\<lparr>hives := AList.update process h (hives s),
                             trace := trace s @ [Connect (hive_uri d)]\<rparr>))))"

text \<open>\<^verbatim>\<open>re.compile("application/json").match(s)\<close>: the pattern is literal and anchored at the start.\<close>

definition json_pattern_match :: "string \<Rightarrow> bool" where
  "json_pattern_match s = prefix ''application/json'' s"

text \<open>\<^verbatim>\<open>except ValueError as e: raise HTTPRequestError(str(e), 404)\<close>; anything else passes.\<close>

definition except_ValueError :: "exn \<Rightarrow> exn" where
  "except_ValueError e = (case e of ValueError m \<Rightarrow> HTTPRequestError m 404 | _ \<Rightarrow> e)"

text \<open>One round of the loop of \<^verbatim>\<open>submit_job\<close>: the entry appended to \<^verbatim>\<open>results['processes']\<close>.\<close>

definition submit_process ::
  "world \<Rightarrow> process_table \<Rightarrow> json \<Rightarrow> string \<Rightarrow> state \<Rightarrow> (exn + json) \<times> state" where
  "submit_process W process_lookup event process s =
     (case log_and_publish W (make_report ''DEBUG'' (''Submitting process '' @ process)) s of
        (Inl e, s1) \<Rightarrow> (Inl e, s1)
      | (Inr _, s1) \<Rightarrow>
     (case get_hive process_lookup process s1 of
        (Inl e, s2) \<Rightarrow> (Inl e, s2)
      | (Inr hive, s2) \<Rightarrow>
     (case get_analysis process_lookup process of
        Inl e \<Rightarrow> (Inl e, s2)
      | Inr an \<Rightarrow>
     (let payload = JObj [(''event'', event)];
          s3 = emit (CreateJob (hive_url hive) an payload) s2
      in case hive_create_job W (trace s2) (hive_url hive) an payload of
           Inl e \<Rightarrow> (Inl (except_ValueError e), s3)
         | Inr jid \<Rightarrow>
     (let s4 = emit (Delay event process jid) s3
      in case task_delay W (trace s3) event process jid of
           Inl e \<Rightarrow> (Inl e, s4)
         | Inr task_id \<Rightarrow>
             (Inr (JObj [(''process'', JStr process), (''job'', JInt jid),
                         (''task'', JStr task_id)]), s4))))))"

fun submit_loop ::
  "world \<Rightarrow> process_table \<Rightarrow> json \<Rightarrow> string list \<Rightarrow> json list \<Rightarrow> state
     \<Rightarrow> (exn + json list) \<times> state" where
  "submit_loop W process_lookup event [] acc s = (Inr acc, s)"
| "submit_loop W process_lookup event (process # rest) acc s =
     (case submit_process W process_lookup event process s of
        (Inl e, s') \<Rightarrow> (Inl e, s')
      | (Inr entry, s') \<Rightarrow> submit_loop W process_lookup event rest (acc @ [entry]) s')"

text \<open>
  \<^verbatim>\<open>POST /jobs\<close>. The arguments are the \<^verbatim>\<open>Content-Type\<close> header (if any) and the parsed body.
\<close>

definition submit_job ::
  "world \<Rightarrow> event_table \<Rightarrow> process_table \<Rightarrow> string option \<Rightarrow> json \<Rightarrow> state
     \<Rightarrow> (exn + json) \<times> state" where
  "submit_job W event_lookup process_lookup content_type event s =
     (case content_type of
        None \<Rightarrow> (Inl (KeyError ''Content-Type''), s)
      | Some ct \<Rightarrow>
          if json_pattern_match ct then
            (case get_processes_for_event event_lookup event of
               Inl e \<Rightarrow> (Inl e, s)
             | Inr ps \<Rightarrow>
                 (case submit_loop W process_lookup event ps [] s of
                    (Inl e, s') \<Rightarrow> (Inl e, s')
                  | (Inr entries, s') \<Rightarrow>
                      (Inr (JObj [(''processes'', JArr entries), (''event'', event)]), s')))
          else (Inl (HTTPRequestError (''Could not handle input of type '' @ ct)
                       default_status_code), s))"

definition results ::
  "world \<Rightarrow> process_table \<Rightarrow> string \<Rightarrow> int \<Rightarrow> state \<Rightarrow> (exn + json) \<times> state" where
  "results W process_lookup process jid s =
     (case log_and_publish W
             (make_report ''INFO''
                (''Retrieving job from '' @ process @ '' with ID '' @ str_int jid)) s of
        (Inl e, s1) \<Rightarrow> (Inl e, s1)
      | (Inr _, s1) \<Rightarrow>
     (case get_hive process_lookup process s1 of
        (Inl e, s2) \<Rightarrow> (Inl (except_ValueError e), s2)
      | (Inr hive, s2) \<Rightarrow>
     (let s3 = emit (GetResultForJobId (hive_url hive) jid) s2
      in case hive_get_result_for_job_id W (trace s2) (hive_url hive) jid of
           Inl e \<Rightarrow> (Inl (except_ValueError e), s3)
         | Inr job_result \<Rightarrow> (Inr job_result, s3))))"

text \<open>\<^verbatim>\<open>results['email'] = email\<close>: item assignment on a dictionary; a \<^verbatim>\<open>TypeError\<close> on anything else.\<close>

definition set_email :: "json \<Rightarrow> string \<Rightarrow> exn + json" where
  "set_email res email =
     (case res of
        JObj kvs \<Rightarrow> Inr (JObj (AList.update ''email'' (JStr email) kvs))
      | _ \<Rightarrow> Inl (TypeError ''item assignment''))"

definition results_email ::
  "world \<Rightarrow> process_table \<Rightarrow> string \<Rightarrow> string \<Rightarrow> int \<Rightarrow> state \<Rightarrow> (exn + json) \<times> state" where
  "results_email W process_lookup email process jid s =
     (case log_and_publish W
             (make_report ''INFO''
                (''Retrieving job with ID '' @ str_int jid @ '' for '' @ email)) s of
        (Inl e, s1) \<Rightarrow> (Inl e, s1)
      | (Inr _, s1) \<Rightarrow>
     (case get_hive process_lookup process s1 of
        (Inl e, s2) \<Rightarrow> (Inl e, s2)
      | (Inr hive, s2) \<Rightarrow>
     (let s3 = emit (GetJobById (hive_url hive) jid) s2
      in case hive_get_job_by_id W (trace s2) (hive_url hive) jid of
           Inl e \<Rightarrow> (Inl (except_ValueError e), s3)
         | Inr _ \<Rightarrow>
     (let s4 = emit (GetResultForJobId (hive_url hive) jid) s3
      in case hive_get_result_for_job_id W (trace s3) (hive_url hive) jid of
           Inl e \<Rightarrow> (Inl (except_ValueError e), s4)
         | Inr res \<Rightarrow>
             (case set_email res email of
                Inl e \<Rightarrow> (Inl e, s4)
              | Inr res' \<Rightarrow> (Inr res', s4))))))"

text \<open>
  \<^verbatim>\<open>GET /jobs/<process>/<job_id>\<close>. The arguments \<open>output_format\<close> and \<open>email\<close> are
  \<^verbatim>\<open>request.args.get('format')\<close> and \<^verbatim>\<open>request.args.get('email')\<close>: \<open>None\<close> when the query
  parameter is absent.
\<close>

definition job ::
  "world \<Rightarrow> process_table \<Rightarrow> string option \<Rightarrow> string option \<Rightarrow> string \<Rightarrow> int \<Rightarrow> state
     \<Rightarrow> (exn + json) \<times> state" where
  "job W process_lookup output_format email process jid s =
     (if output_format = Some ''email'' then
        (case email of
           None \<Rightarrow> (Inl (HTTPRequestError ''Email not specified'' default_status_code), s)
         | Some address \<Rightarrow> results_email W process_lookup address process jid s)
      else
        (case output_format of
           None \<Rightarrow> results W process_lookup process jid s
         | Some f \<Rightarrow>
             (Inl (HTTPRequestError (''Format '' @ f @ '' not known'') default_status_code), s)))"

text \<open>\<^verbatim>\<open>DELETE /jobs/<process>/<job_id>\<close>. Only \<^verbatim>\<open>hive.delete_job\<close> is inside the \<^verbatim>\<open>try\<close>.\<close>

definition delete_job ::
  "world \<Rightarrow> process_table \<Rightarrow> string \<Rightarrow> int \<Rightarrow> state \<Rightarrow> (exn + json) \<times> state" where
  "delete_job W process_lookup process jid s =
     (case get_hive process_lookup process s of
        (Inl e, s1) \<Rightarrow> (Inl e, s1)
      | (Inr hive, s1) \<Rightarrow>
     (let s2 = emit (GetJobById (hive_url hive) jid) s1
      in case hive_get_job_by_id W (trace s1) (hive_url hive) jid of
           Inl e \<Rightarrow> (Inl e, s2)
         | Inr j \<Rightarrow>
     (let s3 = emit (DeleteJob (hive_url hive) j) s2
      in case hive_delete_job W (trace s2) (hive_url hive) j of
           Some e \<Rightarrow> (Inl (except_ValueError e), s3)
         | None \<Rightarrow> (Inr (JObj [(''id'', JInt jid), (''process'', JStr process)]), s3))))"

text \<open>\<^verbatim>\<open>GET /jobs/<process>\<close>.\<close>

definition jobs :: "world \<Rightarrow> process_table \<Rightarrow> string \<Rightarrow> state \<Rightarrow> (exn + json) \<times> state" where
  "jobs W process_lookup process s =
     (case log_and_publish W (make_report ''INFO'' ''Retrieving jobs'') s of
        (Inl e, s1) \<Rightarrow> (Inl e, s1)
      | (Inr _, s1) \<Rightarrow>
     (case get_hive process_lookup process s1 of
        (Inl e, s2) \<Rightarrow> (Inl e, s2)
      | (Inr hive, s2) \<Rightarrow>
     (case get_analysis process_lookup process of
        Inl e \<Rightarrow> (Inl e, s2)
      | Inr an \<Rightarrow>
     (let s3 = emit (GetAllResults (hive_url hive) an) s2
      in case hive_get_all_results W (trace s2) (hive_url hive) an of
           Inl e \<Rightarrow> (Inl e, s3)
         | Inr rs \<Rightarrow> (Inr rs, s3)))))"

subsection \<open>Error handlers and the answer of a route\<close>

text \<open>
  What the caller receives: a response written by the module (status code and JSON body), or
  an exception no handler of the module is registered for, which is left to the framework
  (for a Python exception that is not an HTTP error of the framework: HTTP 500). What the
  framework does with such an exception, the record it writes to the log included, is not
  part of the state.
\<close>

datatype http_result =
    Response nat json
  | Unhandled exn

definition handle_bad_request_error :: "string \<Rightarrow> nat \<Rightarrow> state \<Rightarrow> http_result \<times> state" where
  "handle_bad_request_error message status_code s =
     (Response status_code (JObj [(''error'', JStr message)]), emit (Log 40 message) s)"

definition handle_event_not_found_error :: "string \<Rightarrow> state \<Rightarrow> http_result \<times> state" where
  "handle_event_not_found_error message s =
     (Response 404 (JObj [(''error'', JStr message)]), emit (Log 40 message) s)"

definition handle_process_not_found_error :: "string \<Rightarrow> state \<Rightarrow> http_result \<times> state" where
  "handle_process_not_found_error message s =
     (Response 404 (JObj [(''error'', JStr message)]), emit (Log 40 message) s)"

text \<open>
  The dispatch of \<^verbatim>\<open>@app.errorhandler\<close> by exception class, and a view function run under
  it: a returned \<^verbatim>\<open>jsonify(...)\<close> is a 200 response.
\<close>

definition handle_exception :: "exn \<Rightarrow> state \<Rightarrow> http_result \<times> state" where
  "handle_exception e s =
     (case e of
        HTTPRequestError m c \<Rightarrow> handle_bad_request_error m c s
      | EventNotFoundError m \<Rightarrow> handle_event_not_found_error m s
      | ProcessNotFoundError m \<Rightarrow> handle_process_not_found_error m s
      | _ \<Rightarrow> (Unhandled e, s))"

definition respond :: "(exn + json) \<times> state \<Rightarrow> http_result \<times> state" where
  "respond r = (case r of (Inl e, s) \<Rightarrow> handle_exception e s | (Inr body, s) \<Rightarrow> (Response 200 body, s))"

subsection \<open>Properties of a state, and what a sequence of calls did\<close>

text \<open>The addresses connections were constructed with, in order of construction.\<close>

fun connect_uri :: "effect \<Rightarrow> string option" where
  "connect_uri (Connect u) = Some u"
| "connect_uri _ = None"

definition constructed :: "effect list \<Rightarrow> string list" where
  "constructed t = List.map_filter connect_uri t"

text \<open>
  The pool holds one entry per process name, and its connection objects are exactly the ones
  constructed, one construction each.
\<close>

definition pool_inv :: "state \<Rightarrow> bool" where
  "pool_inv s \<longleftrightarrow>
     distinct (map fst (hives s)) \<and> map (hive_url \<circ> snd) (hives s) = constructed (trace s)"

text \<open>Every cached connection is the one of its process's descriptor.\<close>

definition cache_ok :: "process_table \<Rightarrow> state \<Rightarrow> bool" where
  "cache_ok process_lookup s \<longleftrightarrow>
     list_all (\<lambda>(p, h). case process_lookup p of
                           None \<Rightarrow> False
                         | Some d \<Rightarrow> h = HiveInstance (hive_uri d)) (hives s)"

text \<open>The calls that create or remove a job in a backend.\<close>

fun is_job_change :: "effect \<Rightarrow> bool" where
  "is_job_change (CreateJob _ _ _) = True"
| "is_job_change (DeleteJob _ _) = True"
| "is_job_change _ = False"

definition job_changes :: "effect list \<Rightarrow> effect list" where
  "job_changes t = filter is_job_change t"

subsection \<open>A concrete configuration\<close>

definition example_events :: event_table where
  "example_events = [''new_genome'' \<mapsto> [''qc'', ''load'']]"

definition example_processes :: process_table where
  "example_processes =
     [''qc'' \<mapsto> \<lparr>hive_uri = ''mysql://h1/qc'', analysis = ''run_qc''\<rparr>,
      ''load'' \<mapsto> \<lparr>hive_uri = ''mysql://h2/load'', analysis = ''run_load''\<rparr>]"

definition start :: state where
  "start = \<lparr>hives = [], trace = []\<rparr>"

text \<open>The state after the process \<^verbatim>\<open>qc\<close> was submitted once for the event \<^verbatim>\<open>{"type": "new_genome"}\<close>.\<close>

definition after_qc :: state where
  "after_qc =
     \<lparr>hives = [(''qc'', HiveInstance ''mysql://h1/qc'')],
      trace = [Log 10 ''Submitting process qc'',
               Publish (make_report ''DEBUG'' ''Submitting process qc'') ''report.debug'',
               Connect ''mysql://h1/qc'',
               CreateJob ''mysql://h1/qc'' ''run_qc''
                 (JObj [(''event'', JObj [(''type'', JStr ''new_genome'')])]),
               Delay (JObj [(''type'', JStr ''new_genome'')]) ''qc'' 3]\<rparr>"

text \<open>
  A world in which every call succeeds; a job's identifier is the number of calls made
  before its creation.
\<close>

definition quiet_world :: world where
  "quiet_world =
     \<lparr>bus_publish = (\<lambda>h r k. None),
      task_delay = (\<lambda>h e p j. Inr (''task-'' @ p)),
      hive_create_job = (\<lambda>h u a p. Inr (int (length h))),
      hive_get_job_by_id = (\<lambda>h u j. Inr (Job j)),
      hive_get_result_for_job_id = (\<lambda>h u j. Inr (JObj [(''output'', JStr ''done'')])),
      hive_delete_job = (\<lambda>h u j. None),
      hive_get_all_results = (\<lambda>h u a. Inr (JArr []))\<rparr>"

text \<open>The same with the message bus out of reach.\<close>

definition bus_down_world :: world where
  "bus_down_world = quiet_world\<lparr>bus_publish := (\<lambda>h r k. Some (OtherError ''connection refused''))\<rparr>"

text \<open>The same with a backend that knows no analysis \<^verbatim>\<open>run_load\<close>.\<close>

definition reject_load_world :: world where
  "reject_load_world =
     quiet_world\<lparr>hive_create_job :=
       (\<lambda>h u a p. if a = ''run_load'' then Inl (ValueError ''Analysis run_load not found'')
                  else Inr (int (length h)))\<rparr>"

text \<open>The same with a backend that refuses every deletion.\<close>

definition refuse_delete_world :: world where
  "refuse_delete_world =
     quiet_world\<lparr>hive_delete_job := (\<lambda>h u j. Some (ValueError ''Job is still running''))\<rparr>"

section \<open>Verification\<close>

subsection \<open>Basic facts\<close>

lemma trace_emit [simp]: "trace (emit e s) = trace s @ [e]"
  by (simp add: emit_def)

lemma hives_emit [simp]: "hives (emit e s) = hives s"
  by (simp add: emit_def)

lemma update_absent: "map_of al k = None \<Longrightarrow> AList.update k v al = al @ [(k, v)]"
  by (induction al) (auto split: if_splits)

lemma constructed_append [simp]: "constructed (t @ u) = constructed t @ constructed u"
  by (simp add: constructed_def map_filter_def)

lemma constructed_Nil [simp]: "constructed [] = []"
  by (simp add: constructed_def map_filter_def)

lemma constructed_Cons_Connect [simp]: "constructed (Connect u # t) = u # constructed t"
  by (simp add: constructed_def map_filter_def)

subsection \<open>The report publisher\<close>

text \<open>
  Claim C2, as amended. A report of level \<open>L\<close> (a level name of the logging module) and
  message \<open>m\<close> is written to the local log at the severity of \<open>L\<close>, and after that
  published with routing key \<open>report.\<close> followed by \<open>L\<close> in lower case. Both calls are made
  whatever the bus answers, so a failed publish does not take the log line away; but the
  exception of a failed publish is not caught: it is the outcome of \<open>log_and_publish\<close>, and
  each of the four places that publish a report (the round of a process in \<open>submit_job\<close>,
  \<open>results\<close>, \<open>results_email\<close>, \<open>jobs\<close>) ends in that exception too.
\<close>

theorem log_and_publish_effects:
  assumes "logging_level L = Some severity"
  shows "log_and_publish W (make_report L m) s =
           (case bus_publish W (trace s @ [Log severity m]) (make_report L m)
                   (''report.'' @ lower L) of
              None \<Rightarrow> Inr ()
            | Some e \<Rightarrow> Inl e,
            s\<lparr>trace := trace s @ [Log severity m,
                                   Publish (make_report L m) (''report.'' @ lower L)]\<rparr>) \<and>
         (\<forall>e s'. log_and_publish W (make_report ''DEBUG'' (''Submitting process '' @ process)) s
                    = (Inl e, s') \<longrightarrow>
                  submit_process W PL event process s = (Inl e, s')) \<and>
         (\<forall>e s'. log_and_publish W (make_report ''INFO''
                      (''Retrieving job from '' @ process @ '' with ID '' @ str_int jid)) s
                    = (Inl e, s') \<longrightarrow>
                  results W PL process jid s = (Inl e, s')) \<and>
         (\<forall>e s'. log_and_publish W (make_report ''INFO''
                      (''Retrieving job with ID '' @ str_int jid @ '' for '' @ address)) s
                    = (Inl e, s') \<longrightarrow>
                  results_email W PL address process jid s = (Inl e, s')) \<and>
         (\<forall>e s'. log_and_publish W (make_report ''INFO'' ''Retrieving jobs'') s = (Inl e, s') \<longrightarrow>
                  jobs W PL process s = (Inl e, s'))"
proof -
  have "log_and_publish W (make_report L m) s =
           (case bus_publish W (trace s @ [Log severity m]) (make_report L m)
                   (''report.'' @ lower L) of
              None \<Rightarrow> Inr ()
            | Some e \<Rightarrow> Inl e,
            s\<lparr>trace := trace s @ [Log severity m,
                                   Publish (make_report L m) (''report.'' @ lower L)]\<rparr>)"
    using assms
    by (simp add: log_and_publish_def make_report_def emit_def Let_def split: option.splits)
  then show ?thesis
    by (simp add: submit_process_def results_def results_email_def jobs_def)
qed

theorem log_and_publish_effects_witness:
  "logging_level ''ERROR'' = Some 40 \<and>
   log_and_publish bus_down_world (make_report ''ERROR'' ''x'') start =
     (Inl (OtherError ''connection refused''),
      start\<lparr>trace := [Log 40 ''x'', Publish (make_report ''ERROR'' ''x'') ''report.error'']\<rparr>) \<and>
   fst (log_and_publish bus_down_world (make_report ''INFO'' ''Retrieving jobs'') start) =
     Inl (OtherError ''connection refused'') \<and>
   fst (submit_process bus_down_world example_processes JNull ''qc'' start) =
     Inl (OtherError ''connection refused'') \<and>
   fst (results bus_down_world example_processes ''qc'' 1 start) =
     Inl (OtherError ''connection refused'') \<and>
   fst (results_email bus_down_world example_processes ''a@b.com'' ''qc'' 1 start) =
     Inl (OtherError ''connection refused'') \<and>
   fst (jobs bus_down_world example_processes ''qc'' start) =
     Inl (OtherError ''connection refused'')"
proof -
  have h: "logging_level ''ERROR'' = Some 40"
    by (simp add: logging_level_def)
  note t = log_and_publish_effects [OF h, of bus_down_world "''x''" start "''qc''"
      example_processes JNull 1 "''a@b.com''"]
  have down: "log_and_publish bus_down_world (make_report L m) start =
       (Inl (OtherError ''connection refused''),
        snd (log_and_publish bus_down_world (make_report L m) start))"
    if "L = ''INFO'' \<or> L = ''DEBUG''" for L m
    using that
    by (auto simp: log_and_publish_def make_report_def logging_level_def bus_down_world_def
        quiet_world_def Let_def)
  have a: "log_and_publish bus_down_world (make_report ''ERROR'' ''x'') start =
     (Inl (OtherError ''connection refused''),
      start\<lparr>trace := [Log 40 ''x'', Publish (make_report ''ERROR'' ''x'') ''report.error'']\<rparr>)"
    using t by (simp add: bus_down_world_def quiet_world_def start_def lower_def lower_char_def)
  have b: "fst (log_and_publish bus_down_world (make_report ''INFO'' ''Retrieving jobs'') start) =
     Inl (OtherError ''connection refused'')"
    using down [of "''INFO''" "''Retrieving jobs''"]
    by (cases "log_and_publish bus_down_world (make_report ''INFO'' ''Retrieving jobs'') start")
      simp
  from t down [of "''DEBUG''" "''Submitting process '' @ ''qc''"]
  have "submit_process bus_down_world example_processes JNull ''qc'' start =
     (Inl (OtherError ''connection refused''),
      snd (log_and_publish bus_down_world
             (make_report ''DEBUG'' (''Submitting process '' @ ''qc'')) start))"
    by blast
  then have c: "fst (submit_process bus_down_world example_processes JNull ''qc'' start) =
     Inl (OtherError ''connection refused'')"
    by simp
  from t down [of "''INFO''" "''Retrieving job from '' @ ''qc'' @ '' with ID '' @ str_int 1"]
  have "results bus_down_world example_processes ''qc'' 1 start =
     (Inl (OtherError ''connection refused''),
      snd (log_and_publish bus_down_world
             (make_report ''INFO'' (''Retrieving job from '' @ ''qc'' @ '' with ID '' @ str_int 1))
             start))"
    by blast
  then have d: "fst (results bus_down_world example_processes ''qc'' 1 start) =
     Inl (OtherError ''connection refused'')"
    by simp
  from t down [of "''INFO''" "''Retrieving job with ID '' @ str_int 1 @ '' for '' @ ''a@b.com''"]
  have "results_email bus_down_world example_processes ''a@b.com'' ''qc'' 1 start =
     (Inl (OtherError ''connection refused''),
      snd (log_and_publish bus_down_world
             (make_report ''INFO'' (''Retrieving job with ID '' @ str_int 1 @ '' for '' @ ''a@b.com''))
             start))"
    by blast
  then have e: "fst (results_email bus_down_world example_processes ''a@b.com'' ''qc'' 1 start) =
     Inl (OtherError ''connection refused'')"
    by simp
  from t down [of "''INFO''" "''Retrieving jobs''"]
  have "jobs bus_down_world example_processes ''qc'' start =
     (Inl (OtherError ''connection refused''),
      snd (log_and_publish bus_down_world (make_report ''INFO'' ''Retrieving jobs'') start))"
    by blast
  then have f: "fst (jobs bus_down_world example_processes ''qc'' start) =
     Inl (OtherError ''connection refused'')"
    by simp
  from h a b c d e f show ?thesis by blast
qed

text \<open>
  Claim C2 as stated fails: with the bus out of reach, the request \<^verbatim>\<open>GET /jobs/qc/1\<close> ends in
  the exception of the publisher, for which the module has no handler.
\<close>

theorem log_and_publish_counterexample:
  "fst (respond (results bus_down_world example_processes ''qc'' 1 start)) =
     Unhandled (OtherError ''connection refused'')"
  by (simp add: results_def log_and_publish_def make_report_def logging_level_def
      bus_down_world_def quiet_world_def respond_def handle_exception_def Let_def)

subsection \<open>Submitting an event: requests that are turned away\<close>

text \<open>
  Claim C5. A \<^verbatim>\<open>POST /jobs\<close> request whose \<^verbatim>\<open>Content-Type\<close> header does not start with
  \<^verbatim>\<open>application/json\<close> is answered with HTTP 400 and the body \<^verbatim>\<open>{error: message}\<close>, whatever
  the body, the tables and the state are; the only effect is the error line in the log. A
  header that continues after \<^verbatim>\<open>application/json\<close>, as with a charset, does match.
\<close>

theorem submit_job_content_type_rejected:
  assumes "\<not> json_pattern_match ct"
  shows "respond (submit_job W event_lookup process_lookup (Some ct) event s) =
           (Response 400 (JObj [(''error'', JStr (''Could not handle input of type '' @ ct))]),
            emit (Log 40 (''Could not handle input of type '' @ ct)) s) \<and>
         json_pattern_match (''application/json'' @ rest)"
  using assms
  by (simp add: submit_job_def respond_def handle_exception_def handle_bad_request_error_def
      default_status_code_def json_pattern_match_def)

theorem submit_job_content_type_rejected_witness:
  "\<not> json_pattern_match ''text/plain'' \<and>
   respond (submit_job quiet_world example_events example_processes (Some ''text/plain'')
              (JObj [(''type'', JStr ''new_genome'')]) start) =
     (Response 400 (JObj [(''error'', JStr ''Could not handle input of type text/plain'')]),
      emit (Log 40 ''Could not handle input of type text/plain'') start) \<and>
   json_pattern_match ''application/json; charset=utf-8''"
proof -
  have h: "\<not> json_pattern_match ''text/plain''"
    by (simp add: json_pattern_match_def)
  show ?thesis
    using h submit_job_content_type_rejected [OF h, of quiet_world example_events
        example_processes "JObj [(''type'', JStr ''new_genome'')]" start "''; charset=utf-8''"]
    by simp
qed

text \<open>
  Claim C7. A \<^verbatim>\<open>POST /jobs\<close> request with JSON content type whose event has a \<^verbatim>\<open>type\<close> (a
  string) that is not a key of the event table is answered with HTTP 404 and the body
  \<^verbatim>\<open>{error: message}\<close>, and the message contains the event type.
\<close>

theorem submit_job_unknown_event_type:
  assumes "json_pattern_match ct"
    and "map_of kvs ''type'' = Some (JStr t)"
    and "event_lookup t = None"
  shows "respond (submit_job W event_lookup process_lookup (Some ct) (JObj kvs) s) =
           (Response 404 (JObj [(''error'', JStr (''Event type '' @ t @ '' not known''))]),
            emit (Log 40 (''Event type '' @ t @ '' not known'')) s)
         \<and> sublist t (''Event type '' @ t @ '' not known'')"
proof -
  have "sublist t (''Event type '' @ t @ '' not known'')"
    unfolding sublist_def by blast
  with assms show ?thesis
    by (simp add: submit_job_def get_processes_for_event_def respond_def handle_exception_def
        handle_event_not_found_error_def)
qed

theorem submit_job_unknown_event_type_witness:
  "json_pattern_match ''application/json'' \<and>
   map_of [(''type'', JStr ''no_such_event'')] ''type'' = Some (JStr ''no_such_event'') \<and>
   example_events ''no_such_event'' = None \<and>
   respond (submit_job quiet_world example_events example_processes (Some ''application/json'')
              (JObj [(''type'', JStr ''no_such_event'')]) start) =
     (Response 404 (JObj [(''error'', JStr ''Event type no_such_event not known'')]),
      emit (Log 40 ''Event type no_such_event not known'') start)"
proof -
  have h1: "json_pattern_match ''application/json''"
    by (simp add: json_pattern_match_def)
  have h2: "map_of [(''type'', JStr ''no_such_event'')] ''type'' = Some (JStr ''no_such_event'')"
    by simp
  have h3: "example_events ''no_such_event'' = None"
    by (simp add: example_events_def)
  show ?thesis
    using h1 h2 h3
      submit_job_unknown_event_type [where ct = "''application/json''"
        and kvs = "[(''type'', JStr ''no_such_event'')]" and t = "''no_such_event''"
        and event_lookup = example_events and W = quiet_world
        and process_lookup = example_processes and s = start]
    by simp
qed

text \<open>
  Claim C4, as amended. A \<^verbatim>\<open>POST /jobs\<close> request with JSON content type whose event is a
  dictionary without the key \<^verbatim>\<open>type\<close> is not validated: the subscript \<^verbatim>\<open>event['type']\<close>
  raises \<^verbatim>\<open>KeyError\<close>, none of the three error handlers is registered for it, and the request
  ends in that exception, not in an error response of the module. The handler has by then
  neither touched the connection cache nor asked a backend to create or delete a job.
\<close>

theorem submit_job_missing_type:
  assumes "json_pattern_match ct"
    and "map_of kvs ''type'' = None"
  shows "fst (respond (submit_job W event_lookup process_lookup (Some ct) (JObj kvs) s)) =
           Unhandled (KeyError ''type'') \<and>
         hives (snd (respond (submit_job W event_lookup process_lookup (Some ct) (JObj kvs) s))) =
           hives s \<and>
         job_changes
           (trace (snd (respond (submit_job W event_lookup process_lookup (Some ct) (JObj kvs) s)))) =
           job_changes (trace s)"
  using assms
  by (simp add: submit_job_def get_processes_for_event_def respond_def handle_exception_def)

theorem submit_job_missing_type_witness:
  "json_pattern_match ''application/json; charset=utf-8'' \<and>
   map_of [(''genome'', JInt 7)] ''type'' = None \<and>
   fst (respond (submit_job quiet_world example_events example_processes
                   (Some ''application/json; charset=utf-8'') (JObj [(''genome'', JInt 7)])
                   after_qc)) =
     Unhandled (KeyError ''type'') \<and>
   hives (snd (respond (submit_job quiet_world example_events example_processes
                   (Some ''application/json; charset=utf-8'') (JObj [(''genome'', JInt 7)])
                   after_qc))) =
     [(''qc'', HiveInstance ''mysql://h1/qc'')] \<and>
   job_changes (trace (snd (respond (submit_job quiet_world example_events example_processes
                   (Some ''application/json; charset=utf-8'') (JObj [(''genome'', JInt 7)])
                   after_qc)))) =
     [CreateJob ''mysql://h1/qc'' ''run_qc''
        (JObj [(''event'', JObj [(''type'', JStr ''new_genome'')])])]"
proof -
  have h1: "json_pattern_match ''application/json; charset=utf-8''"
    by (simp add: json_pattern_match_def)
  have h2: "map_of [(''genome'', JInt 7)] ''type'' = None"
    by simp
  have h3: "hives after_qc = [(''qc'', HiveInstance ''mysql://h1/qc'')]"
    by (simp add: after_qc_def)
  have h4: "job_changes (trace after_qc) =
      [CreateJob ''mysql://h1/qc'' ''run_qc''
         (JObj [(''event'', JObj [(''type'', JStr ''new_genome'')])])]"
    by (simp add: after_qc_def job_changes_def)
  show ?thesis
    using h1 h2 h3 h4 submit_job_missing_type [OF h1 h2, of quiet_world example_events
        example_processes after_qc]
    by simp
qed

text \<open>
  Claim C4 as stated fails: the event \<^verbatim>\<open>{"species": "homo_sapiens"}\<close> gets no error response
  of the module, but the unhandled \<^verbatim>\<open>KeyError\<close>.
\<close>

theorem submit_job_missing_type_counterexample:
  "fst (respond (submit_job quiet_world example_events example_processes
                   (Some ''application/json'') (JObj [(''species'', JStr ''homo_sapiens'')])
                   start)) =
     Unhandled (KeyError ''type'')"
  by (simp add: submit_job_def get_processes_for_event_def respond_def handle_exception_def
      json_pattern_match_def)

subsection \<open>The connection pool\<close>

lemma get_hive_cached:
  "map_of (hives s) p = Some h \<Longrightarrow> get_hive PL p s = (Inr h, s)"
  by (simp add: get_hive_def)

lemma get_hive_new:
  "map_of (hives s) p = None \<Longrightarrow> PL p = Some d \<Longrightarrow>
   get_hive PL p s =
     (Inr (HiveInstance (hive_uri d)),
      s\<lparr>hives := hives s @ [(p, HiveInstance (hive_uri d))],
        trace := trace s @ [Connect (hive_uri d)]\<rparr>)"
  by (simp add: get_hive_def update_absent Let_def)

lemma get_hive_unknown:
  "map_of (hives s) p = None \<Longrightarrow> PL p = None \<Longrightarrow>
   get_hive PL p s = (Inl (ProcessNotFoundError (''Process '' @ p @ '' not known'')), s)"
  by (simp add: get_hive_def)

lemma map_of_None_fst: "map_of al k = None \<Longrightarrow> k \<notin> fst ` set al"
  by (simp add: map_of_eq_None_iff)

lemma get_hive_pool_inv: "pool_inv s \<Longrightarrow> pool_inv (snd (get_hive PL p s))"
proof (cases "map_of (hives s) p")
  case (Some h)
  assume "pool_inv s"
  with Some show ?thesis by (simp add: get_hive_cached)
next
  case None
  assume inv: "pool_inv s"
  show ?thesis
  proof (cases "PL p")
    case N: None
    with None inv show ?thesis by (simp add: get_hive_unknown)
  next
    case (Some d)
    from None have "p \<notin> fst ` set (hives s)" by (rule map_of_None_fst)
    with None Some inv show ?thesis
      by (simp add: get_hive_new pool_inv_def)
  qed
qed

text \<open>
  Claim C8. \<open>get_hive\<close> keeps at most one connection object per process name. A call for
  a name in the cache returns the cached object and changes nothing, so constructs nothing;
  a call for a known name that is not in the cache constructs one connection from the address
  of the process's descriptor and appends it to the cache; a call for a name that is neither
  cached nor in the process table raises \<^verbatim>\<open>ProcessNotFoundError\<close> and changes nothing. The
  invariant of the pool (distinct names, and the cached objects are exactly the constructed
  ones, one construction each) is kept.
\<close>

theorem get_hive_pool:
  "(\<forall>h. map_of (hives s) p = Some h \<longrightarrow> get_hive PL p s = (Inr h, s)) \<and>
   (\<forall>d. map_of (hives s) p = None \<and> PL p = Some d \<longrightarrow>
        get_hive PL p s =
          (Inr (HiveInstance (hive_uri d)),
           s\<lparr>hives := hives s @ [(p, HiveInstance (hive_uri d))],
             trace := trace s @ [Connect (hive_uri d)]\<rparr>)) \<and>
   (map_of (hives s) p = None \<and> PL p = None \<longrightarrow>
        get_hive PL p s = (Inl (ProcessNotFoundError (''Process '' @ p @ '' not known'')), s)) \<and>
   (pool_inv s \<longrightarrow> pool_inv (snd (get_hive PL p s)))"
  by (simp add: get_hive_cached get_hive_new get_hive_unknown get_hive_pool_inv)

theorem get_hive_pool_witness:
  "map_of (hives after_qc) ''qc'' = Some (HiveInstance ''mysql://h1/qc'') \<and>
   map_of (hives after_qc) ''load'' = None \<and>
   example_processes ''load'' = Some \<lparr>hive_uri = ''mysql://h2/load'', analysis = ''run_load''\<rparr> \<and>
   map_of (hives after_qc) ''align'' = None \<and>
   example_processes ''align'' = None \<and>
   pool_inv after_qc \<and>
   get_hive example_processes ''qc'' after_qc = (Inr (HiveInstance ''mysql://h1/qc''), after_qc) \<and>
   get_hive example_processes ''load'' after_qc =
     (Inr (HiveInstance ''mysql://h2/load''),
      after_qc\<lparr>hives := [(''qc'', HiveInstance ''mysql://h1/qc''),
                          (''load'', HiveInstance ''mysql://h2/load'')],
               trace := trace after_qc @ [Connect ''mysql://h2/load'']\<rparr>) \<and>
   get_hive example_processes ''align'' after_qc =
     (Inl (ProcessNotFoundError ''Process align not known''), after_qc) \<and>
   pool_inv (snd (get_hive example_processes ''load'' after_qc))"
proof -
  have a: "map_of (hives after_qc) ''qc'' = Some (HiveInstance ''mysql://h1/qc'')"
    and b: "map_of (hives after_qc) ''load'' = None"
    and c: "example_processes ''load'' = Some \<lparr>hive_uri = ''mysql://h2/load'', analysis = ''run_load''\<rparr>"
    and d: "map_of (hives after_qc) ''align'' = None"
    and e: "example_processes ''align'' = None"
    by (simp_all add: after_qc_def example_processes_def)
  have i: "pool_inv after_qc"
    by (simp add: pool_inv_def after_qc_def constructed_def map_filter_def)
  have h: "hives after_qc = [(''qc'', HiveInstance ''mysql://h1/qc'')]"
    by (simp add: after_qc_def)
  from a get_hive_pool [of after_qc "''qc''" example_processes]
  have r1: "get_hive example_processes ''qc'' after_qc = (Inr (HiveInstance ''mysql://h1/qc''), after_qc)"
    by blast
  from b c i h get_hive_pool [of after_qc "''load''" example_processes]
  have r2: "get_hive example_processes ''load'' after_qc =
     (Inr (HiveInstance ''mysql://h2/load''),
      after_qc\<lparr>hives := [(''qc'', HiveInstance ''mysql://h1/qc''),
                          (''load'', HiveInstance ''mysql://h2/load'')],
               trace := trace after_qc @ [Connect ''mysql://h2/load'']\<rparr>) \<and>
     pool_inv (snd (get_hive example_processes ''load'' after_qc))"
    by auto
  from d e get_hive_pool [of after_qc "''align''" example_processes]
  have r3: "get_hive example_processes ''align'' after_qc =
     (Inl (ProcessNotFoundError ''Process align not known''), after_qc)"
    by simp
  from a b c d e i r1 r2 r3 show ?thesis by blast
qed

subsection \<open>Retrieving a job\<close>

lemma log_and_publish_ok:
  assumes "logging_level L = Some severity" and "\<forall>h r k. bus_publish W h r k = None"
  shows "log_and_publish W (make_report L m) s =
           (Inr (), s\<lparr>trace := trace s @ [Log severity m,
                                           Publish (make_report L m) (''report.'' @ lower L)]\<rparr>)"
  using assms
  by (simp add: log_and_publish_def make_report_def emit_def Let_def)

lemma logging_level_INFO [simp]: "logging_level ''INFO'' = Some 20"
  by (simp add: logging_level_def)

lemma logging_level_DEBUG [simp]: "logging_level ''DEBUG'' = Some 10"
  by (simp add: logging_level_def)

lemma lower_INFO [simp]: "lower ''INFO'' = ''info''"
  by (simp add: lower_def lower_char_def)

lemma lower_DEBUG [simp]: "lower ''DEBUG'' = ''debug''"
  by (simp add: lower_def lower_char_def)

lemma get_hive_known:
  assumes "PL p = Some d"
  shows "\<exists>h s' cs. get_hive PL p s = (Inr h, s') \<and> trace s' = trace s @ cs \<and>
           (cs = [] \<or> cs = [Connect (hive_url h)]) \<and> map_of (hives s') p = Some h"
proof (cases "map_of (hives s) p")
  case None
  with assms show ?thesis
    by (simp add: get_hive_new map_add_def)
next
  case (Some h)
  then show ?thesis
    by (simp add: get_hive_cached)
qed


lemma results_email_ok:
  assumes "PL process = Some d"
    and "\<forall>h r k. bus_publish W h r k = None"
    and "\<forall>h u. \<exists>j. hive_get_job_by_id W h u jid = Inr j"
    and "\<forall>h u. hive_get_result_for_job_id W h u jid = Inr (JObj kvs)"
  shows "\<exists>s' u cs. results_email W PL email process jid s =
             (Inr (JObj (AList.update ''email'' (JStr email) kvs)), s') \<and>
           trace s' =
             trace s @
             [Log 20 (''Retrieving job with ID '' @ str_int jid @ '' for '' @ email),
              Publish (make_report ''INFO''
                         (''Retrieving job with ID '' @ str_int jid @ '' for '' @ email))
                ''report.info''] @
             cs @ [GetJobById u jid, GetResultForJobId u jid] \<and>
           (cs = [] \<or> cs = [Connect u])"
proof -
  let ?m = "''Retrieving job with ID '' @ str_int jid @ '' for '' @ email"
  let ?s1 = "s\<lparr>trace := trace s @ [Log 20 ?m, Publish (make_report ''INFO'' ?m) ''report.info'']\<rparr>"
  have lp: "log_and_publish W (make_report ''INFO'' ?m) s = (Inr (), ?s1)"
    using log_and_publish_ok [OF logging_level_INFO assms(2)] by simp
  obtain h s2 cs where gh: "get_hive PL process ?s1 = (Inr h, s2)"
    and tr: "trace s2 = trace ?s1 @ cs" and cs: "cs = [] \<or> cs = [Connect (hive_url h)]"
    using assms(1) get_hive_known [of PL process d ?s1] by blast
  obtain j where gj: "hive_get_job_by_id W (trace s2) (hive_url h) jid = Inr j"
    using assms(3) by blast
  have "results_email W PL email process jid s =
          (Inr (JObj (AList.update ''email'' (JStr email) kvs)),
           emit (GetResultForJobId (hive_url h) jid) (emit (GetJobById (hive_url h) jid) s2))"
    using lp gh gj assms(4) by (simp add: results_email_def Let_def set_email_def)
  moreover have "trace (emit (GetResultForJobId (hive_url h) jid) (emit (GetJobById (hive_url h) jid) s2)) =
      trace s @ [Log 20 ?m, Publish (make_report ''INFO'' ?m) ''report.info''] @ cs @
        [GetJobById (hive_url h) jid, GetResultForJobId (hive_url h) jid]"
    using tr by simp
  ultimately show ?thesis
    using cs by blast
qed

lemma respond_Inr [simp]: "respond (Inr body, s) = (Response 200 body, s)"
  by (simp add: respond_def)

lemma respond_HTTPRequestError [simp]:
  "respond (Inl (HTTPRequestError m c), s) =
     (Response c (JObj [(''error'', JStr m)]), emit (Log 40 m) s)"
  by (simp add: respond_def handle_exception_def handle_bad_request_error_def)

lemma map_of_update_same: "map_of (AList.update k v al) k = Some v"
  by (simp add: AList.update_conv')



text \<open>
  Claim C10. With \<^verbatim>\<open>format=email\<close> and an \<^verbatim>\<open>email\<close> parameter that is present but empty, the
  check for a missing address does not fire: the request is that of \<open>results_email\<close> with the
  empty address, and where the backend returns the job and a result document the answer is 200
  with that document carrying \<^verbatim>\<open>"email": ""\<close>.
\<close>

theorem job_empty_email:
  "job W PL (Some ''email'') (Some '''') process jid s = results_email W PL '''' process jid s \<and>
   (PL process = Some d \<and> (\<forall>h r k. bus_publish W h r k = None) \<and>
    (\<forall>h u. \<exists>j. hive_get_job_by_id W h u jid = Inr j) \<and>
    (\<forall>h u. hive_get_result_for_job_id W h u jid = Inr (JObj kvs)) \<longrightarrow>
      fst (respond (job W PL (Some ''email'') (Some '''') process jid s)) =
        Response 200 (JObj (AList.update ''email'' (JStr '''') kvs)) \<and>
      map_of (AList.update ''email'' (JStr '''') kvs) ''email'' = Some (JStr ''''))"
proof (intro conjI impI)
  show "job W PL (Some ''email'') (Some '''') process jid s = results_email W PL '''' process jid s"
    by (simp add: job_def)
next
  assume a: "PL process = Some d \<and> (\<forall>h r k. bus_publish W h r k = None) \<and>
    (\<forall>h u. \<exists>j. hive_get_job_by_id W h u jid = Inr j) \<and>
    (\<forall>h u. hive_get_result_for_job_id W h u jid = Inr (JObj kvs))"
  then obtain s' where
    "results_email W PL '''' process jid s = (Inr (JObj (AList.update ''email'' (JStr '''') kvs)), s')"
    using results_email_ok [of PL process d W jid kvs "''''" s] by blast
  then show "fst (respond (job W PL (Some ''email'') (Some '''') process jid s)) =
        Response 200 (JObj (AList.update ''email'' (JStr '''') kvs))"
    by (simp add: job_def)
next
  show "map_of (AList.update ''email'' (JStr '''') kvs) ''email'' = Some (JStr '''')"
    by (rule map_of_update_same)
qed

theorem job_empty_email_witness:
  "example_processes ''load'' = Some \<lparr>hive_uri = ''mysql://h2/load'', analysis = ''run_load''\<rparr> \<and>
   (\<forall>h r k. bus_publish quiet_world h r k = None) \<and>
   (\<forall>h u. \<exists>j. hive_get_job_by_id quiet_world h u 5 = Inr j) \<and>
   (\<forall>h u. hive_get_result_for_job_id quiet_world h u 5 = Inr (JObj [(''output'', JStr ''done'')])) \<and>
   fst (respond (job quiet_world example_processes (Some ''email'') (Some '''') ''load'' 5 start)) =
     Response 200 (JObj [(''output'', JStr ''done''), (''email'', JStr '''')])"
proof -
  have h1: "example_processes ''load'' = Some \<lparr>hive_uri = ''mysql://h2/load'', analysis = ''run_load''\<rparr>"
    by (simp add: example_processes_def)
  have h2: "\<forall>h r k. bus_publish quiet_world h r k = None"
    by (simp add: quiet_world_def)
  have h3: "\<forall>h u. \<exists>j. hive_get_job_by_id quiet_world h u 5 = Inr j"
    by (simp add: quiet_world_def)
  have h4: "\<forall>h u. hive_get_result_for_job_id quiet_world h u 5 = Inr (JObj [(''output'', JStr ''done'')])"
    by (simp add: quiet_world_def)
  from h1 h2 h3 h4
    job_empty_email [of quiet_world example_processes "''load''" 5 start
      "\<lparr>hive_uri = ''mysql://h2/load'', analysis = ''run_load''\<rparr>" "[(''output'', JStr ''done'')]"]
  have "fst (respond (job quiet_world example_processes (Some ''email'') (Some '''') ''load'' 5 start)) =
     Response 200 (JObj [(''output'', JStr ''done''), (''email'', JStr '''')])"
    by auto
  with h1 h2 h3 h4 show ?thesis by blast
qed

subsection \<open>Deleting a job\<close>

text \<open>
  Claim C9. \<^verbatim>\<open>DELETE /jobs/<process>/<job_id>\<close>, once the connection of the process is obtained
  and the backend has returned the job: if the backend rejects the deletion (\<^verbatim>\<open>ValueError\<close>),
  the answer is 404 with the backend's message; if it accepts, the answer is 200 with the body
  \<^verbatim>\<open>{id: job_id, process: process}\<close>. In both cases the cache is the one \<open>get_hive\<close> left,
  which holds the connection of the process; and if the process was cached before the request,
  the cache is unchanged.
\<close>

theorem delete_job_outcomes:
  assumes "get_hive PL process s = (Inr hive, s1)"
    and "hive_get_job_by_id W (trace s1) (hive_url hive) jid = Inr j"
  shows "(\<forall>m. hive_delete_job W (trace s1 @ [GetJobById (hive_url hive) jid]) (hive_url hive) j
                = Some (ValueError m) \<longrightarrow>
            (\<exists>s'. respond (delete_job W PL process jid s) =
                     (Response 404 (JObj [(''error'', JStr m)]), s') \<and>
                   hives s' = hives s1)) \<and>
         (hive_delete_job W (trace s1 @ [GetJobById (hive_url hive) jid]) (hive_url hive) j = None \<longrightarrow>
            (\<exists>s'. respond (delete_job W PL process jid s) =
                     (Response 200 (JObj [(''id'', JInt jid), (''process'', JStr process)]), s') \<and>
                   hives s' = hives s1)) \<and>
         map_of (hives s1) process = Some hive \<and>
         (\<forall>h0. map_of (hives s) process = Some h0 \<longrightarrow> hives s1 = hives s \<and> hive = h0)"
proof (intro conjI allI impI)
  fix m
  assume "hive_delete_job W (trace s1 @ [GetJobById (hive_url hive) jid]) (hive_url hive) j
            = Some (ValueError m)"
  with assms show "\<exists>s'. respond (delete_job W PL process jid s) =
                     (Response 404 (JObj [(''error'', JStr m)]), s') \<and> hives s' = hives s1"
    by (simp add: delete_job_def Let_def except_ValueError_def)
next
  assume "hive_delete_job W (trace s1 @ [GetJobById (hive_url hive) jid]) (hive_url hive) j = None"
  with assms show "\<exists>s'. respond (delete_job W PL process jid s) =
                     (Response 200 (JObj [(''id'', JInt jid), (''process'', JStr process)]), s') \<and>
                   hives s' = hives s1"
    by (simp add: delete_job_def Let_def)
next
  from assms(1) show "map_of (hives s1) process = Some hive"
    by (auto simp: get_hive_def Let_def AList.update_conv' split: option.splits)
next
  fix h0
  assume "map_of (hives s) process = Some h0"
  with assms(1) show "hives s1 = hives s" and "hive = h0"
    by (simp_all add: get_hive_cached)
qed

theorem delete_job_outcomes_witness:
  "get_hive example_processes ''qc'' after_qc = (Inr (HiveInstance ''mysql://h1/qc''), after_qc) \<and>
   hive_get_job_by_id refuse_delete_world (trace after_qc) ''mysql://h1/qc'' 3 = Inr (Job 3) \<and>
   hive_delete_job refuse_delete_world (trace after_qc @ [GetJobById ''mysql://h1/qc'' 3])
       ''mysql://h1/qc'' (Job 3) = Some (ValueError ''Job is still running'') \<and>
   map_of (hives after_qc) ''qc'' = Some (HiveInstance ''mysql://h1/qc'') \<and>
   fst (respond (delete_job refuse_delete_world example_processes ''qc'' 3 after_qc)) =
     Response 404 (JObj [(''error'', JStr ''Job is still running'')]) \<and>
   hives (snd (respond (delete_job refuse_delete_world example_processes ''qc'' 3 after_qc))) =
     hives after_qc \<and>
   hive_get_job_by_id quiet_world (trace after_qc) ''mysql://h1/qc'' 3 = Inr (Job 3) \<and>
   hive_delete_job quiet_world (trace after_qc @ [GetJobById ''mysql://h1/qc'' 3])
       ''mysql://h1/qc'' (Job 3) = None \<and>
   fst (respond (delete_job quiet_world example_processes ''qc'' 3 after_qc)) =
     Response 200 (JObj [(''id'', JInt 3), (''process'', JStr ''qc'')]) \<and>
   hives (snd (respond (delete_job quiet_world example_processes ''qc'' 3 after_qc))) =
     hives after_qc"
proof -
  have g: "get_hive example_processes ''qc'' after_qc = (Inr (HiveInstance ''mysql://h1/qc''), after_qc)"
    by (simp add: get_hive_def after_qc_def)
  have c: "map_of (hives after_qc) ''qc'' = Some (HiveInstance ''mysql://h1/qc'')"
    by (simp add: after_qc_def)
  have j1: "hive_get_job_by_id refuse_delete_world (trace after_qc)
              (hive_url (HiveInstance ''mysql://h1/qc'')) 3 = Inr (Job 3)"
    by (simp add: refuse_delete_world_def quiet_world_def)
  have d1: "hive_delete_job refuse_delete_world
              (trace after_qc @ [GetJobById (hive_url (HiveInstance ''mysql://h1/qc'')) 3])
              (hive_url (HiveInstance ''mysql://h1/qc'')) (Job 3) =
            Some (ValueError ''Job is still running'')"
    by (simp add: refuse_delete_world_def quiet_world_def)
  have j2: "hive_get_job_by_id quiet_world (trace after_qc)
              (hive_url (HiveInstance ''mysql://h1/qc'')) 3 = Inr (Job 3)"
    by (simp add: quiet_world_def)
  have d2: "hive_delete_job quiet_world
              (trace after_qc @ [GetJobById (hive_url (HiveInstance ''mysql://h1/qc'')) 3])
              (hive_url (HiveInstance ''mysql://h1/qc'')) (Job 3) = None"
    by (simp add: quiet_world_def)
  from d1 delete_job_outcomes [OF g j1]
  obtain s1 where
    "respond (delete_job refuse_delete_world example_processes ''qc'' 3 after_qc) =
       (Response 404 (JObj [(''error'', JStr ''Job is still running'')]), s1)"
    and "hives s1 = hives after_qc"
    by blast
  then have r1: "fst (respond (delete_job refuse_delete_world example_processes ''qc'' 3 after_qc)) =
      Response 404 (JObj [(''error'', JStr ''Job is still running'')]) \<and>
    hives (snd (respond (delete_job refuse_delete_world example_processes ''qc'' 3 after_qc))) =
      hives after_qc"
    by simp
  from d2 delete_job_outcomes [OF g j2]
  obtain s2 where
    "respond (delete_job quiet_world example_processes ''qc'' 3 after_qc) =
       (Response 200 (JObj [(''id'', JInt 3), (''process'', JStr ''qc'')]), s2)"
    and "hives s2 = hives after_qc"
    by blast
  then have r2: "fst (respond (delete_job quiet_world example_processes ''qc'' 3 after_qc)) =
      Response 200 (JObj [(''id'', JInt 3), (''process'', JStr ''qc'')]) \<and>
    hives (snd (respond (delete_job quiet_world example_processes ''qc'' 3 after_qc))) =
      hives after_qc"
    by simp
  have u: "hive_url (HiveInstance ''mysql://h1/qc'') = ''mysql://h1/qc''"
    by simp
  from g c j1 [unfolded u] d1 [unfolded u] j2 [unfolded u] d2 [unfolded u] r1 r2
  show ?thesis by blast
qed

subsection \<open>Submitting an event: the loop over the processes\<close>

lemma job_changes_append [simp]: "job_changes (t @ u) = job_changes t @ job_changes u"
  by (simp add: job_changes_def)

lemma job_changes_Nil [simp]: "job_changes [] = []"
  by (simp add: job_changes_def)

lemma job_changes_Cons [simp]:
  "job_changes (e # t) = (if is_job_change e then e # job_changes t else job_changes t)"
  by (simp add: job_changes_def)

lemma log_and_publish_frame:
  assumes "log_and_publish W r s = (x, s')"
  shows "hives s' = hives s" and "job_changes (trace s') = job_changes (trace s)"
  using assms by (auto simp: log_and_publish_def Let_def split: option.splits)

lemma get_hive_frame:
  assumes "get_hive PL p s = (x, s')"
  shows "job_changes (trace s') = job_changes (trace s)"
  using assms by (auto simp: get_hive_def Let_def split: option.splits)

lemma submit_process_Inr:
  assumes "submit_process W PL event q s = (Inr entry, s')"
  shows "\<exists>u a j t. entry = JObj [(''process'', JStr q), (''job'', JInt j), (''task'', JStr t)] \<and>
           job_changes (trace s') =
             job_changes (trace s) @ [CreateJob u a (JObj [(''event'', event)])]"
proof -
  obtain x1 s1 where lp: "log_and_publish W (make_report ''DEBUG'' (''Submitting process '' @ q)) s = (x1, s1)"
    by (cases "log_and_publish W (make_report ''DEBUG'' (''Submitting process '' @ q)) s")
  obtain x2 s2 where gh: "get_hive PL q s1 = (x2, s2)"
    by (cases "get_hive PL q s1")
  have f: "job_changes (trace s2) = job_changes (trace s)"
    using log_and_publish_frame(2) [OF lp] get_hive_frame [OF gh] by simp
  from assms lp gh f show ?thesis
    by (auto simp: submit_process_def Let_def split: sum.splits)
qed

lemma submit_loop_Inr:
  "submit_loop W PL event ps acc s = (Inr entries, s') \<Longrightarrow>
   \<exists>new cs. entries = acc @ new \<and>
     list_all2 (\<lambda>q e. \<exists>j t. e = JObj [(''process'', JStr q), (''job'', JInt j), (''task'', JStr t)])
       ps new \<and>
     list_all2 (\<lambda>q c. \<exists>u a. c = CreateJob u a (JObj [(''event'', event)])) ps cs \<and>
     job_changes (trace s') = job_changes (trace s) @ cs"
proof (induction ps arbitrary: acc s)
  case Nil
  then show ?case by simp
next
  case (Cons q ps)
  obtain x s1 where sp: "submit_process W PL event q s = (x, s1)"
    by (cases "submit_process W PL event q s")
  with Cons.prems obtain entry where x: "x = Inr entry"
    by (cases x) auto
  from Cons.prems sp x have rest: "submit_loop W PL event ps (acc @ [entry]) s1 = (Inr entries, s')"
    by simp
  from submit_process_Inr [OF sp [unfolded x]] obtain u a j t where
    e: "entry = JObj [(''process'', JStr q), (''job'', JInt j), (''task'', JStr t)]" and
    c: "job_changes (trace s1) = job_changes (trace s) @ [CreateJob u a (JObj [(''event'', event)])]"
    by blast
  from Cons.IH [OF rest] obtain new cs where
    n: "entries = (acc @ [entry]) @ new" and
    l1: "list_all2 (\<lambda>q e. \<exists>j t. e = JObj [(''process'', JStr q), (''job'', JInt j), (''task'', JStr t)]) ps new" and
    l2: "list_all2 (\<lambda>q c. \<exists>u a. c = CreateJob u a (JObj [(''event'', event)])) ps cs" and
    jc: "job_changes (trace s') = job_changes (trace s1) @ cs"
    by blast
  have "entries = acc @ (entry # new)" using n by simp
  moreover have "list_all2 (\<lambda>q e. \<exists>j t. e = JObj [(''process'', JStr q), (''job'', JInt j), (''task'', JStr t)])
       (q # ps) (entry # new)"
    using e l1 by simp
  moreover have "list_all2 (\<lambda>q c. \<exists>u a. c = CreateJob u a (JObj [(''event'', event)])) (q # ps)
       (CreateJob u a (JObj [(''event'', event)]) # cs)"
    using l2 by simp
  moreover have "job_changes (trace s') = job_changes (trace s) @ (CreateJob u a (JObj [(''event'', event)]) # cs)"
    using jc c by simp
  ultimately show ?case by blast
qed

lemma submit_loop_append:
  "submit_loop W PL event (ps @ qs) acc s =
     (case submit_loop W PL event ps acc s of
        (Inl e, s') \<Rightarrow> (Inl e, s')
      | (Inr entries, s') \<Rightarrow> submit_loop W PL event qs entries s')"
  by (induction ps arbitrary: acc s) (auto split: prod.splits sum.splits)

lemma cache_ok_emit [simp]: "cache_ok PL (emit e s) = cache_ok PL s"
  by (simp add: cache_ok_def)

lemma cache_ok_trace [simp]: "cache_ok PL (s\<lparr>trace := t\<rparr>) = cache_ok PL s"
  by (simp add: cache_ok_def)

lemma cache_ok_lookup:
  assumes "cache_ok PL s" and "map_of (hives s) p = Some h" and "PL p = Some d"
  shows "h = HiveInstance (hive_uri d)"
proof -
  from assms(2) have "(p, h) \<in> set (hives s)"
    by (rule map_of_SomeD)
  with assms(1) have "case PL p of None \<Rightarrow> False | Some d \<Rightarrow> h = HiveInstance (hive_uri d)"
    by (auto simp: cache_ok_def list_all_iff)
  with assms(3) show ?thesis by simp
qed

lemma get_hive_cache_ok:
  assumes "cache_ok PL s" and "PL p = Some d"
  shows "\<exists>s'. get_hive PL p s = (Inr (HiveInstance (hive_uri d)), s') \<and> cache_ok PL s'"
proof (cases "map_of (hives s) p")
  case None
  with assms show ?thesis
    by (simp add: get_hive_new cache_ok_def)
next
  case (Some h)
  with assms have "h = HiveInstance (hive_uri d)"
    by (simp add: cache_ok_lookup)
  with Some assms(1) show ?thesis
    by (simp add: get_hive_cached)
qed

text \<open>
  \<open>cache_ok\<close> holds of the empty cache and is kept by \<open>get_hive\<close>, the only function that
  writes the cache: it holds in every state the service reaches.
\<close>

lemma cache_ok_start: "cache_ok PL start"
  by (simp add: cache_ok_def start_def)

lemma get_hive_keeps_cache_ok:
  assumes "cache_ok PL s"
  shows "cache_ok PL (snd (get_hive PL p s))"
proof (cases "PL p")
  case None
  with assms show ?thesis
    by (cases "map_of (hives s) p") (simp_all add: get_hive_unknown get_hive_cached)
next
  case (Some d)
  with assms obtain s' where "get_hive PL p s = (Inr (HiveInstance (hive_uri d)), s')"
    and "cache_ok PL s'"
    using get_hive_cache_ok [of PL s p d] by blast
  then show ?thesis by simp
qed

lemma submit_process_ok:
  assumes "cache_ok PL s" and "PL q = Some d"
    and "\<forall>h r k. bus_publish W h r k = None"
    and "\<forall>h e q j. \<exists>i. task_delay W h e q j = Inr i"
    and "\<forall>h pl. \<exists>j. hive_create_job W h (hive_uri d) (analysis d) pl = Inr j"
  shows "\<exists>entry s'. submit_process W PL event q s = (Inr entry, s') \<and> cache_ok PL s'"
proof -
  let ?m = "''Submitting process '' @ q"
  let ?s1 = "s\<lparr>trace := trace s @ [Log 10 ?m, Publish (make_report ''DEBUG'' ?m) ''report.debug'']\<rparr>"
  let ?payload = "JObj [(''event'', event)]"
  have lp: "log_and_publish W (make_report ''DEBUG'' ?m) s = (Inr (), ?s1)"
    using log_and_publish_ok [OF logging_level_DEBUG assms(3)] by simp
  have "cache_ok PL ?s1" using assms(1) by simp
  with assms(2) obtain s2 where gh: "get_hive PL q ?s1 = (Inr (HiveInstance (hive_uri d)), s2)"
    and ok2: "cache_ok PL s2"
    using get_hive_cache_ok [of PL ?s1 q d] by blast
  obtain j where cj: "hive_create_job W (trace s2) (hive_uri d) (analysis d) ?payload = Inr j"
    using assms(5) by blast
  obtain i where td: "task_delay W (trace s2 @ [CreateJob (hive_uri d) (analysis d) ?payload]) event q j = Inr i"
    using assms(4) by blast
  from lp gh cj td assms(2) ok2 show ?thesis
    by (simp add: submit_process_def get_analysis_def Let_def)
qed

lemma submit_loop_ok:
  assumes "\<forall>h r k. bus_publish W h r k = None"
    and "\<forall>h e q j. \<exists>i. task_delay W h e q j = Inr i"
  shows "cache_ok PL s \<Longrightarrow>
     \<forall>q\<in>set ps. \<exists>d. PL q = Some d \<and>
        (\<forall>h pl. \<exists>j. hive_create_job W h (hive_uri d) (analysis d) pl = Inr j) \<Longrightarrow>
     \<exists>entries s'. submit_loop W PL event ps acc s = (Inr entries, s')"
proof (induction ps arbitrary: acc s)
  case Nil
  then show ?case by simp
next
  case (Cons q ps)
  from Cons.prems(2) obtain d where d: "PL q = Some d"
    and cj: "\<forall>h pl. \<exists>j. hive_create_job W h (hive_uri d) (analysis d) pl = Inr j"
    by auto
  from submit_process_ok [OF Cons.prems(1) d assms(1) assms(2) cj]
  obtain entry s1 where sp: "submit_process W PL event q s = (Inr entry, s1)" and ok: "cache_ok PL s1"
    by blast
  from Cons.prems(2) have rest: "\<forall>q\<in>set ps. \<exists>d. PL q = Some d \<and>
        (\<forall>h pl. \<exists>j. hive_create_job W h (hive_uri d) (analysis d) pl = Inr j)"
    by simp
  from Cons.IH [OF ok rest, of "acc @ [entry]"] sp show ?case
    by simp
qed

lemmas eval_defs =
  submit_job_def get_processes_for_event_def submit_process_def log_and_publish_def
  make_report_def get_hive_def get_analysis_def json_pattern_match_def except_ValueError_def
  delete_job_def respond_def handle_exception_def handle_bad_request_error_def
  handle_event_not_found_error_def handle_process_not_found_error_def
  emit_def Let_def lower_def lower_char_def logging_level_def
  example_events_def example_processes_def start_def after_qc_def

text \<open>
  Claim C1. A \<^verbatim>\<open>POST /jobs\<close> request with JSON content type whose event type maps to the
  processes \<open>ps\<close>: whenever the handler returns, the body is
  \<^verbatim>\<open>{processes: entries, event: <the submitted event>}\<close> with exactly one entry
  \<^verbatim>\<open>{process, job, task}\<close> per process of \<open>ps\<close>, in the order of the table; and it does return,
  with status 200, when the processes are known, every job creation for them succeeds and
  neither the message bus nor the task queue fails.
\<close>

theorem submit_job_all_created:
  assumes "json_pattern_match ct"
    and "map_of kvs ''type'' = Some (JStr t)"
    and "EL t = Some ps"
  shows "(\<forall>body s'. submit_job W EL PL (Some ct) (JObj kvs) s = (Inr body, s') \<longrightarrow>
            (\<exists>entries. body = JObj [(''processes'', JArr entries), (''event'', JObj kvs)] \<and>
               length entries = length ps \<and>
               list_all2 (\<lambda>q e. \<exists>j i. e = JObj [(''process'', JStr q), (''job'', JInt j),
                                                   (''task'', JStr i)]) ps entries)) \<and>
         (cache_ok PL s \<and> (\<forall>h r k. bus_publish W h r k = None) \<and>
          (\<forall>h e q j. \<exists>i. task_delay W h e q j = Inr i) \<and>
          (\<forall>q\<in>set ps. \<exists>d. PL q = Some d \<and>
             (\<forall>h pl. \<exists>j. hive_create_job W h (hive_uri d) (analysis d) pl = Inr j)) \<longrightarrow>
            (\<exists>entries s'.
               respond (submit_job W EL PL (Some ct) (JObj kvs) s) =
                 (Response 200 (JObj [(''processes'', JArr entries), (''event'', JObj kvs)]), s') \<and>
               length entries = length ps \<and>
               list_all2 (\<lambda>q e. \<exists>j i. e = JObj [(''process'', JStr q), (''job'', JInt j),
                                                   (''task'', JStr i)]) ps entries))"
proof -
  have shape: "\<exists>entries. body = JObj [(''processes'', JArr entries), (''event'', JObj kvs)] \<and>
               length entries = length ps \<and>
               list_all2 (\<lambda>q e. \<exists>j i. e = JObj [(''process'', JStr q), (''job'', JInt j),
                                                   (''task'', JStr i)]) ps entries"
    if r: "submit_job W EL PL (Some ct) (JObj kvs) s = (Inr body, s')" for body s'
  proof -
    obtain x s1 where loop: "submit_loop W PL (JObj kvs) ps [] s = (x, s1)"
      by (cases "submit_loop W PL (JObj kvs) ps [] s")
    with r assms obtain entries where x: "x = Inr entries"
      and body: "body = JObj [(''processes'', JArr entries), (''event'', JObj kvs)]"
      by (cases x) (auto simp: submit_job_def get_processes_for_event_def)
    from submit_loop_Inr [OF loop [unfolded x]]
    have l: "list_all2 (\<lambda>q e. \<exists>j i. e = JObj [(''process'', JStr q), (''job'', JInt j),
                                                   (''task'', JStr i)]) ps entries"
      by auto
    then have "length entries = length ps"
      by (simp add: list_all2_lengthD)
    with body l show ?thesis by blast
  qed
  have ok: "\<exists>entries s'.
               respond (submit_job W EL PL (Some ct) (JObj kvs) s) =
                 (Response 200 (JObj [(''processes'', JArr entries), (''event'', JObj kvs)]), s') \<and>
               length entries = length ps \<and>
               list_all2 (\<lambda>q e. \<exists>j i. e = JObj [(''process'', JStr q), (''job'', JInt j),
                                                   (''task'', JStr i)]) ps entries"
    if h: "cache_ok PL s \<and> (\<forall>h r k. bus_publish W h r k = None) \<and>
          (\<forall>h e q j. \<exists>i. task_delay W h e q j = Inr i) \<and>
          (\<forall>q\<in>set ps. \<exists>d. PL q = Some d \<and>
             (\<forall>h pl. \<exists>j. hive_create_job W h (hive_uri d) (analysis d) pl = Inr j))"
  proof -
    from h obtain entries s' where loop: "submit_loop W PL (JObj kvs) ps [] s = (Inr entries, s')"
      using submit_loop_ok [of W PL s ps "JObj kvs" "[]"] by blast
    with assms have r: "submit_job W EL PL (Some ct) (JObj kvs) s =
        (Inr (JObj [(''processes'', JArr entries), (''event'', JObj kvs)]), s')"
      by (simp add: submit_job_def get_processes_for_event_def)
    from shape [OF r] r show ?thesis
      by auto
  qed
  from shape ok show ?thesis by blast
qed

theorem submit_job_all_created_witness:
  "json_pattern_match ''application/json'' \<and>
   map_of [(''type'', JStr ''new_genome'')] ''type'' = Some (JStr ''new_genome'') \<and>
   example_events ''new_genome'' = Some [''qc'', ''load''] \<and>
   cache_ok example_processes start \<and>
   (\<forall>h r k. bus_publish quiet_world h r k = None) \<and>
   (\<forall>h e q j. \<exists>i. task_delay quiet_world h e q j = Inr i) \<and>
   (\<exists>d. example_processes ''qc'' = Some d \<and>
      (\<forall>h pl. \<exists>j. hive_create_job quiet_world h (hive_uri d) (analysis d) pl = Inr j)) \<and>
   (\<exists>d. example_processes ''load'' = Some d \<and>
      (\<forall>h pl. \<exists>j. hive_create_job quiet_world h (hive_uri d) (analysis d) pl = Inr j)) \<and>
   fst (respond (submit_job quiet_world example_events example_processes (Some ''application/json'')
                   (JObj [(''type'', JStr ''new_genome'')]) start)) =
     Response 200
       (JObj [(''processes'',
               JArr [JObj [(''process'', JStr ''qc''), (''job'', JInt 3), (''task'', JStr ''task-qc'')],
                     JObj [(''process'', JStr ''load''), (''job'', JInt 8),
                           (''task'', JStr ''task-load'')]]),
              (''event'', JObj [(''type'', JStr ''new_genome'')])])"
proof -
  have h1: "json_pattern_match ''application/json''"
    by (simp add: json_pattern_match_def)
  have h2: "map_of [(''type'', JStr ''new_genome'')] ''type'' = Some (JStr ''new_genome'')"
    by simp
  have h3: "example_events ''new_genome'' = Some [''qc'', ''load'']"
    by (simp add: example_events_def)
  have h4: "cache_ok example_processes start"
    by (simp add: cache_ok_def start_def)
  have h5: "\<forall>h r k. bus_publish quiet_world h r k = None"
    by (simp add: quiet_world_def)
  have h6: "\<forall>h e q j. \<exists>i. task_delay quiet_world h e q j = Inr i"
    by (simp add: quiet_world_def)
  have h7a: "\<exists>d. example_processes ''qc'' = Some d \<and>
      (\<forall>h pl. \<exists>j. hive_create_job quiet_world h (hive_uri d) (analysis d) pl = Inr j)"
    by (simp add: example_processes_def quiet_world_def)
  have h7b: "\<exists>d. example_processes ''load'' = Some d \<and>
      (\<forall>h pl. \<exists>j. hive_create_job quiet_world h (hive_uri d) (analysis d) pl = Inr j)"
    by (simp add: example_processes_def quiet_world_def)
  from h7a h7b
  have h7: "\<forall>q\<in>set [''qc'', ''load'']. \<exists>d. example_processes q = Some d \<and>
      (\<forall>h pl. \<exists>j. hive_create_job quiet_world h (hive_uri d) (analysis d) pl = Inr j)"
    by simp
  have run: "fst (submit_job quiet_world example_events example_processes (Some ''application/json'')
                   (JObj [(''type'', JStr ''new_genome'')]) start) =
     Inr (JObj [(''processes'',
               JArr [JObj [(''process'', JStr ''qc''), (''job'', JInt 3), (''task'', JStr ''task-qc'')],
                     JObj [(''process'', JStr ''load''), (''job'', JInt 8),
                           (''task'', JStr ''task-load'')]]),
              (''event'', JObj [(''type'', JStr ''new_genome'')])])"
    by (simp add: eval_defs quiet_world_def)
  from h4 h5 h6 h7
    submit_job_all_created [where ct = "''application/json''"
      and kvs = "[(''type'', JStr ''new_genome'')]" and t = "''new_genome''"
      and EL = example_events and ps = "[''qc'', ''load'']" and W = quiet_world
      and PL = example_processes and s = start, OF h1 h2 h3]
  obtain entries s' where
    "respond (submit_job quiet_world example_events example_processes (Some ''application/json'')
                   (JObj [(''type'', JStr ''new_genome'')]) start) =
       (Response 200 (JObj [(''processes'', JArr entries),
                            (''event'', JObj [(''type'', JStr ''new_genome'')])]), s')"
    by blast
  with run have "fst (respond (submit_job quiet_world example_events example_processes
                   (Some ''application/json'') (JObj [(''type'', JStr ''new_genome'')]) start)) =
     Response 200
       (JObj [(''processes'',
               JArr [JObj [(''process'', JStr ''qc''), (''job'', JInt 3), (''task'', JStr ''task-qc'')],
                     JObj [(''process'', JStr ''load''), (''job'', JInt 8),
                           (''task'', JStr ''task-load'')]]),
              (''event'', JObj [(''type'', JStr ''new_genome'')])])"
    by (cases "submit_job quiet_world example_events example_processes
                   (Some ''application/json'') (JObj [(''type'', JStr ''new_genome'')]) start")
      (auto simp: respond_def)
  with h1 h2 h3 h4 h5 h6 h7a h7b show ?thesis by blast
qed

text \<open>
  Claim C3. An event maps to the processes \<open>pre @ p # post\<close>; the rounds for \<open>pre\<close> succeed
  (one entry each), and in the round for \<open>p\<close> the backend rejects the job creation
  (\<^verbatim>\<open>ValueError\<close>). Then the answer is 404 with the body \<^verbatim>\<open>{error: message}\<close> of that
  rejection, which reports none of the entries; and the calls of the whole request that create
  or remove jobs are one creation for each process of \<open>pre\<close>, in order, and the rejected
  creation for \<open>p\<close>: no deletion, so the earlier jobs stay, and nothing for \<open>post\<close>.
\<close>

theorem submit_job_partial_failure:
  assumes "json_pattern_match ct"
    and "map_of kvs ''type'' = Some (JStr t)"
    and "EL t = Some (pre @ p # post)"
    and "submit_loop W PL (JObj kvs) pre [] s = (Inr entries, s1)"
    and "log_and_publish W (make_report ''DEBUG'' (''Submitting process '' @ p)) s1 = (Inr (), s2)"
    and "get_hive PL p s2 = (Inr hive, s3)"
    and "get_analysis PL p = Inr an"
    and "hive_create_job W (trace s3) (hive_url hive) an (JObj [(''event'', JObj kvs)]) =
           Inl (ValueError m)"
  shows "\<exists>s' cs.
           respond (submit_job W EL PL (Some ct) (JObj kvs) s) =
             (Response 404 (JObj [(''error'', JStr m)]), s') \<and>
           length entries = length pre \<and>
           list_all2 (\<lambda>q c. \<exists>u a. c = CreateJob u a (JObj [(''event'', JObj kvs)])) pre cs \<and>
           job_changes (trace s') =
             job_changes (trace s) @ cs @
             [CreateJob (hive_url hive) an (JObj [(''event'', JObj kvs)])]"
proof -
  let ?payload = "JObj [(''event'', JObj kvs)]"
  let ?s4 = "emit (CreateJob (hive_url hive) an ?payload) s3"
  from submit_loop_Inr [OF assms(4)] obtain new cs where
    n: "entries = new" and
    l1: "list_all2 (\<lambda>q e. \<exists>j t. e = JObj [(''process'', JStr q), (''job'', JInt j), (''task'', JStr t)]) pre new" and
    l2: "list_all2 (\<lambda>q c. \<exists>u a. c = CreateJob u a ?payload) pre cs" and
    jc: "job_changes (trace s1) = job_changes (trace s) @ cs"
    by auto
  have len: "length entries = length pre"
    using n l1 by (simp add: list_all2_lengthD)
  have sp: "submit_process W PL (JObj kvs) p s1 = (Inl (HTTPRequestError m 404), ?s4)"
    using assms(5-8) by (simp add: submit_process_def Let_def except_ValueError_def)
  have loop: "submit_loop W PL (JObj kvs) (pre @ p # post) [] s = (Inl (HTTPRequestError m 404), ?s4)"
    using assms(4) sp by (simp add: submit_loop_append)
  have resp: "respond (submit_job W EL PL (Some ct) (JObj kvs) s) =
      (Response 404 (JObj [(''error'', JStr m)]), emit (Log 40 m) ?s4)"
    using assms(1-3) loop by (simp add: submit_job_def get_processes_for_event_def)
  have "job_changes (trace s3) = job_changes (trace s1)"
    using log_and_publish_frame(2) [OF assms(5)] get_hive_frame [OF assms(6)] by simp
  then have "job_changes (trace (emit (Log 40 m) ?s4)) =
      job_changes (trace s) @ cs @ [CreateJob (hive_url hive) an ?payload]"
    using jc by simp
  with resp len l2 show ?thesis by blast
qed

theorem submit_job_partial_failure_witness:
  "json_pattern_match ''application/json'' \<and>
   map_of [(''type'', JStr ''new_genome'')] ''type'' = Some (JStr ''new_genome'') \<and>
   example_events ''new_genome'' = Some ([''qc''] @ ''load'' # []) \<and>
   submit_loop reject_load_world example_processes (JObj [(''type'', JStr ''new_genome'')])
       [''qc''] [] start =
     (Inr [JObj [(''process'', JStr ''qc''), (''job'', JInt 3), (''task'', JStr ''task-qc'')]],
      after_qc) \<and>
   log_and_publish reject_load_world (make_report ''DEBUG'' (''Submitting process '' @ ''load''))
       after_qc =
     (Inr (), emit (Publish (make_report ''DEBUG'' ''Submitting process load'') ''report.debug'')
                (emit (Log 10 ''Submitting process load'') after_qc)) \<and>
   get_hive example_processes ''load''
       (emit (Publish (make_report ''DEBUG'' ''Submitting process load'') ''report.debug'')
          (emit (Log 10 ''Submitting process load'') after_qc)) =
     (Inr (HiveInstance ''mysql://h2/load''),
      \<lparr>hives = [(''qc'', HiveInstance ''mysql://h1/qc''), (''load'', HiveInstance ''mysql://h2/load'')],
       trace = trace after_qc @
         [Log 10 ''Submitting process load'',
          Publish (make_report ''DEBUG'' ''Submitting process load'') ''report.debug'',
          Connect ''mysql://h2/load'']\<rparr>) \<and>
   get_analysis example_processes ''load'' = Inr ''run_load'' \<and>
   fst (respond (submit_job reject_load_world example_events example_processes
                   (Some ''application/json'') (JObj [(''type'', JStr ''new_genome'')]) start)) =
     Response 404 (JObj [(''error'', JStr ''Analysis run_load not found'')]) \<and>
   job_changes (trace (snd (respond (submit_job reject_load_world example_events example_processes
                   (Some ''application/json'') (JObj [(''type'', JStr ''new_genome'')]) start)))) =
     [CreateJob ''mysql://h1/qc'' ''run_qc'' (JObj [(''event'', JObj [(''type'', JStr ''new_genome'')])]),
      CreateJob ''mysql://h2/load'' ''run_load''
        (JObj [(''event'', JObj [(''type'', JStr ''new_genome'')])])]"
proof -
  let ?ev = "JObj [(''type'', JStr ''new_genome'')]"
  let ?s2 = "emit (Publish (make_report ''DEBUG'' ''Submitting process load'') ''report.debug'')
                (emit (Log 10 ''Submitting process load'') after_qc)"
  let ?s3 = "\<lparr>hives = [(''qc'', HiveInstance ''mysql://h1/qc''), (''load'', HiveInstance ''mysql://h2/load'')],
       trace = trace after_qc @
         [Log 10 ''Submitting process load'',
          Publish (make_report ''DEBUG'' ''Submitting process load'') ''report.debug'',
          Connect ''mysql://h2/load'']\<rparr>"
  have h1: "json_pattern_match ''application/json''"
    by (simp add: json_pattern_match_def)
  have h2: "map_of [(''type'', JStr ''new_genome'')] ''type'' = Some (JStr ''new_genome'')"
    by simp
  have h3: "example_events ''new_genome'' = Some ([''qc''] @ ''load'' # [])"
    by (simp add: example_events_def)
  have h4: "submit_loop reject_load_world example_processes ?ev [''qc''] [] start =
     (Inr [JObj [(''process'', JStr ''qc''), (''job'', JInt 3), (''task'', JStr ''task-qc'')]],
      after_qc)"
    by (simp add: eval_defs reject_load_world_def quiet_world_def)
  have h5: "log_and_publish reject_load_world (make_report ''DEBUG'' (''Submitting process '' @ ''load''))
       after_qc = (Inr (), ?s2)"
    by (simp add: eval_defs reject_load_world_def quiet_world_def)
  have h6: "get_hive example_processes ''load'' ?s2 = (Inr (HiveInstance ''mysql://h2/load''), ?s3)"
    by (simp add: eval_defs)
  have h7: "get_analysis example_processes ''load'' = Inr ''run_load''"
    by (simp add: eval_defs)
  have h8: "hive_create_job reject_load_world (trace ?s3) (hive_url (HiveInstance ''mysql://h2/load''))
       ''run_load'' (JObj [(''event'', ?ev)]) = Inl (ValueError ''Analysis run_load not found'')"
    by (simp add: reject_load_world_def quiet_world_def)
  from submit_job_partial_failure [where EL = example_events and W = reject_load_world
      and PL = example_processes and s = start and post = "[]", OF h1 h2 h3 h4 h5 h6 h7 h8]
  obtain s' cs where
    r: "respond (submit_job reject_load_world example_events example_processes
                   (Some ''application/json'') ?ev start) =
          (Response 404 (JObj [(''error'', JStr ''Analysis run_load not found'')]), s')" and
    l: "list_all2 (\<lambda>q c. \<exists>u a. c = CreateJob u a (JObj [(''event'', ?ev)])) [''qc''] cs" and
    j: "job_changes (trace s') = job_changes (trace start) @ cs @
          [CreateJob (hive_url (HiveInstance ''mysql://h2/load'')) ''run_load'' (JObj [(''event'', ?ev)])]"
    by blast
  have a: "fst (respond (submit_job reject_load_world example_events example_processes
                   (Some ''application/json'') ?ev start)) =
     Response 404 (JObj [(''error'', JStr ''Analysis run_load not found'')])"
    using r by simp
  have b: "job_changes (trace (snd (respond (submit_job reject_load_world example_events
                   example_processes (Some ''application/json'') ?ev start)))) =
     [CreateJob ''mysql://h1/qc'' ''run_qc'' (JObj [(''event'', ?ev)]),
      CreateJob ''mysql://h2/load'' ''run_load'' (JObj [(''event'', ?ev)])]"
    by (simp add: eval_defs reject_load_world_def quiet_world_def)
  from h1 h2 h3 h4 h5 h6 h7 a b show ?thesis by blast
qed

end
